theory Spec2Isabelle
  imports
    Complex_Main
    "HOL-Library.Sublist"
    "HOL-Library.Char_ord"
    "HOL-Library.List_Lexorder"
begin

section \<open>JavaScript values and strings\<close>

text \<open>
  A thrown value is either an \<open>Error\<close> object carrying a message or anything else;
  the handlers of the source read the message with
  \<^verbatim>\<open>error instanceof Error ? error.message : 'Unknown error'\<close>.
\<close>

datatype js_exn = JsError string | NonError

definition error_message :: "js_exn \<Rightarrow> string" where
  "error_message e = (case e of JsError m \<Rightarrow> m | NonError \<Rightarrow> ''Unknown error'')"

text \<open>
  Strings are lists of 8-bit characters, so the model covers ASCII text; a position is a
  position in that list. \<open>lastIndexOf\<close> is \<^verbatim>\<open>String.prototype.lastIndexOf\<close> for a
  one-character pattern: the greatest position holding the character, or \<open>-1\<close>.
  \<open>substring0 s n\<close> is \<^verbatim>\<open>s.substring(0, n)\<close>.
\<close>

definition lastIndexOf :: "string \<Rightarrow> char \<Rightarrow> int" where
  "lastIndexOf s c = int (length s) - 1 - int (length (takeWhile (\<lambda>x. x \<noteq> c) (rev s)))"

definition substring0 :: "string \<Rightarrow> int \<Rightarrow> string" where
  "substring0 s n = take (nat n) s"


text \<open>
  The white space class of \<^verbatim>\<open>\s\<close> and of \<^verbatim>\<open>trim()\<close>, restricted to ASCII: space, tab,
  line feed, vertical tab, form feed, carriage return.
\<close>

definition is_space :: "char \<Rightarrow> bool" where
  "is_space c \<longleftrightarrow> c \<in> set [CHR '' '', CHR 0x09, CHR 0x0A, CHR 0x0B, CHR 0x0C, CHR 0x0D]"


text \<open>
  \<^verbatim>\<open>toLowerCase()\<close> on ASCII letters, \<^verbatim>\<open>split(/\s+/)\<close> (a string with \<open>n\<close> maximal
  runs of white space gives \<open>n + 1\<close> pieces, so leading or trailing white space gives an
  empty piece and the empty string gives one empty piece), and \<^verbatim>\<open>includes\<close>.
\<close>

definition to_lower :: "char \<Rightarrow> char" where
  "to_lower c = (if CHR ''A'' \<le> c \<and> c \<le> CHR ''Z'' then char_of (of_char c + (32::nat)) else c)"

definition toLowerCase :: "string \<Rightarrow> string" where
  "toLowerCase s = map to_lower s"

function split_ws :: "string \<Rightarrow> string list" where
  "split_ws [] = [[]]"
| "split_ws (c # cs) =
     (if is_space c then [] # split_ws (dropWhile is_space cs)
      else (case split_ws cs of [] \<Rightarrow> [[c]] | w # ws \<Rightarrow> (c # w) # ws))"
  by pat_completeness auto
termination
  by (relation "measure length") (auto simp: less_Suc_eq_le length_dropWhile_le)

definition js_includes :: "string \<Rightarrow> string \<Rightarrow> bool" where
  "js_includes s q = sublist q s"

text \<open>
  \<^verbatim>\<open>a || b\<close> on optional strings: \<open>undefined\<close>, \<open>null\<close> and the empty string are falsy.
\<close>

definition truthy :: "string option \<Rightarrow> bool" where
  "truthy v = (case v of None \<Rightarrow> False | Some s \<Rightarrow> s \<noteq> [])"

definition js_or :: "string option \<Rightarrow> string option \<Rightarrow> string option" where
  "js_or a b = (if truthy a then a else b)"

definition or_undefined :: "string option \<Rightarrow> string option" where
  "or_undefined v = (if truthy v then v else None)"

definition or_string :: "string option \<Rightarrow> string \<Rightarrow> string" where
  "or_string v d = (case v of None \<Rightarrow> d | Some s \<Rightarrow> if s = [] then d else s)"


text \<open>
  \<^verbatim>\<open>xs.slice(0, n)\<close>: a negative end counts from the end of the array and NaN
  (\<open>None\<close>) is read as 0.
\<close>

definition slice0 :: "'a list \<Rightarrow> int option \<Rightarrow> 'a list" where
  "slice0 xs n =
     (case n of
        None \<Rightarrow> []
      | Some k \<Rightarrow> if k < 0 then take (nat (int (length xs) + k)) xs else take (nat k) xs)"

text \<open>
  \<^verbatim>\<open>parseInt(s, 10)\<close>: leading white space is skipped, an optional sign is read, then
  the longest run of decimal digits; no digit gives NaN (\<open>None\<close>). Values are exact
  integers (the rounding of binary64 beyond \<open>2^53\<close> is not modelled).
\<close>

definition is_digit :: "char \<Rightarrow> bool" where
  "is_digit c \<longleftrightarrow> CHR ''0'' \<le> c \<and> c \<le> CHR ''9''"

definition digit_val :: "char \<Rightarrow> int" where
  "digit_val c = int (of_char c) - 48"

definition parseInt10 :: "string \<Rightarrow> int option" where
  "parseInt10 s =
     (let s1 = dropWhile is_space s;
          neg = (case s1 of [] \<Rightarrow> False | c # _ \<Rightarrow> c = CHR ''-'');
          s2 = (case s1 of [] \<Rightarrow> [] | c # r \<Rightarrow> if c = CHR ''-'' \<or> c = CHR ''+'' then r else s1);
          ds = takeWhile is_digit s2;
          n = foldl (\<lambda>a d. 10 * a + digit_val d) 0 ds
      in if ds = [] then None else Some (if neg then - n else n))"

section \<open>The store\<close>

text \<open>
  The tables of the schema, one record per row, a table being the list of its rows in
  insertion order. Column names carry the alias the queries of the source use
  (\<open>a\<close>, \<open>wi\<close>, \<open>ri\<close>). Integer columns are \<open>int\<close>, nullable text columns are
  \<open>string option\<close>. The \<open>article_embeddings\<close> table is written by no operation below and
  is left out.
\<close>

record rss_feed_row =
  rf_id :: string
  rf_name :: string
  rf_url :: string
  rf_category :: string
  rf_is_active :: int
  rf_last_fetched :: "string option"
  rf_created_at :: string
  rf_updated_at :: string

record article_row =
  a_id :: string
  a_feed_id :: string
  a_title :: string
  a_content :: string
  a_snippet :: string
  a_author :: "string option"
  a_published_at :: string
  a_url :: string
  a_is_read :: int
  a_is_archived :: int
  a_created_at :: string
  a_updated_at :: string
  a_category :: "string option"
  a_summary :: "string option"
  a_analysis :: "string option"

record workspace_item_row =
  wi_id :: string
  wi_article_id :: string
  wi_order_index :: int
  wi_custom_content :: "string option"
  wi_custom_analysis :: "string option"
  wi_is_edited :: int
  wi_created_at :: string
  wi_updated_at :: string

record report_row =
  r_id :: string
  r_title :: string
  r_description :: "string option"
  r_status :: string
  r_created_at :: string
  r_updated_at :: string

record report_item_row =
  ri_id :: string
  ri_report_id :: string
  ri_workspace_item_id :: string
  ri_order_index :: int
  ri_created_at :: string

record db =
  rss_feeds :: "rss_feed_row list"
  articles :: "article_row list"
  workspace_items :: "workspace_item_row list"
  reports :: "report_row list"
  report_items :: "report_item_row list"
  settings :: "(string \<times> string) list"

text \<open>
  The statements the fetcher, the search and the AI service issue; whether the store
  rejects one is decided by the environment (\<open>store_fault\<close> below). The methods of
  \<open>DatabaseService\<close> and the route handlers are modelled for statements that run: they
  have no handler of their own, a rejected statement surfaces as a 500 response.
\<close>

datatype statement =
    SelectSetting string
  | SelectFeed string
  | SelectArticleByUrl string
  | InsertArticle string
  | UpdateFeed string
  | DeleteOldArticles string
  | SelectArticles
  | SelectArticle string

text \<open>
  \<open>MAX(column)\<close> over the rows (\<open>None\<close>: NULL, the table is empty),
  \<open>ORDER BY published_at DESC\<close> (text compared bytewise; where two rows tie the store
  may pick any order, the model keeps one), and \<open>LIMIT n\<close>, which SQLite reads as no
  limit when \<open>n\<close> is negative.
\<close>

definition sql_max :: "int list \<Rightarrow> int option" where
  "sql_max xs = (case xs of [] \<Rightarrow> None | y # ys \<Rightarrow> Some (fold max ys y))"

definition order_by_published_desc :: "article_row list \<Rightarrow> article_row list" where
  "order_by_published_desc rows = rev (sort_key a_published_at rows)"

definition sql_limit :: "int \<Rightarrow> 'a list \<Rightarrow> 'a list" where
  "sql_limit n xs = (if n < 0 then xs else take (nat n) xs)"

text \<open>
  A violated constraint (primary key, unique column, foreign key) makes the store reject
  the statement with an \<open>Error\<close>; the text of its message is the store's.
\<close>

definition constraint_failed :: js_exn where
  "constraint_failed = JsError ''constraint failed''"

section \<open>The environment\<close>

text \<open>
  An entry of a parsed feed document (\<^verbatim>\<open>RSSItem\<close>); every field is optional.
\<close>

record RSSItem =
  title :: "string option"
  link :: "string option"
  content :: "string option"
  contentSnippet :: "string option"
  author :: "string option"
  pubDate :: "string option"

text \<open>
  What \<^verbatim>\<open>env.AI.run\<close> is asked: a chat completion (system prompt, user message,
  \<open>max_tokens\<close>, temperature) or an embedding of a text. \<open>max_tokens\<close> is the result of
  \<^verbatim>\<open>parseInt\<close> (\<open>None\<close> is NaN); the temperature is carried as the text of its setting
  (\<open>None\<close>: the default 0.3), its conversion by \<^verbatim>\<open>parseFloat\<close> is left to the
  environment.

  What it answers: an object with a string \<open>response\<close>, an object with an array \<open>data\<close>
  of vectors, or anything else.
\<close>

datatype ai_request =
    Chat string string "int option" "string option"
  | Embed string

datatype ai_response =
    TextResponse string
  | DataResponse "rat list list"
  | Malformed

text \<open>
  Everything the services obtain from outside the store is a field of \<open>world\<close>:
  \<^item> \<open>store_fault\<close>: whether the store rejects a statement, and with what
    (\<open>None\<close>: the statement runs);
  \<^item> \<open>AI_run\<close>: the answer of the AI binding, or what it throws;
  \<^item> \<open>parseURL\<close>: the parsed document of a feed URL (its \<open>items\<close>, which may be
    missing), or what fetching and parsing throws;
  \<^item> \<open>randomUUID\<close>: the identifier drawn at the \<open>i\<close>-th draw of an operation (in a
    fetch: for the \<open>i\<close>-th entry);
  \<^item> \<open>now\<close>: \<^verbatim>\<open>new Date().toISOString()\<close>;
  \<^item> \<open>datetime_now\<close>: \<open>datetime('now')\<close> of the store, written by the update triggers;
  \<^item> \<open>toISOString\<close>: \<^verbatim>\<open>new Date(s).toISOString()\<close>, \<open>None\<close> where it throws;
  \<^item> \<open>cleanText\<close>: the text normaliser of the fetcher (tags stripped, entities
    decoded, white space collapsed); the results below hold for every such function.
\<close>

record world =
  store_fault :: "statement \<Rightarrow> js_exn option"
  AI_run :: "ai_request \<Rightarrow> js_exn + ai_response"
  parseURL :: "string \<Rightarrow> js_exn + RSSItem list option"
  randomUUID :: "nat \<Rightarrow> string"
  now :: string
  datetime_now :: string
  toISOString :: "string \<Rightarrow> string option"
  cleanText :: "string \<Rightarrow> string"

section \<open>AIService\<close>

subsection \<open>truncateText\<close>

text \<open>
  \<^verbatim>\<open>lastSentence > maxLength * 0.7\<close> and \<^verbatim>\<open>lastParagraph > maxLength * 0.5\<close> compare an
  integer with a binary64 product. The method is private and called with 2000 and 1000
  only, where the products are exactly 1400, 1000, 700 and 500, so the comparisons are
  written in integers.
\<close>

definition truncateText :: "string \<Rightarrow> nat \<Rightarrow> string" where
  "truncateText text maxLength =
     (if length text \<le> maxLength then text
      else
        let truncated = substring0 text (int maxLength);
            lastSentence = lastIndexOf truncated (CHR ''.'');
            lastParagraph = lastIndexOf truncated (CHR 0x0A);
            lastSpace = lastIndexOf truncated (CHR '' '')
        in if 10 * lastSentence > 7 * int maxLength then substring0 truncated (lastSentence + 1)
           else if 2 * lastParagraph > int maxLength then substring0 truncated lastParagraph
           else if lastSpace > 0 then substring0 truncated lastSpace
           else truncated)"

subsection \<open>Settings read by the summariser\<close>





subsection \<open>summarizeText and generateEmbedding\<close>


definition generateEmbedding :: "world \<Rightarrow> string \<Rightarrow> js_exn + rat list" where
  "generateEmbedding w text =
     (let truncatedText = truncateText text 1000
      in case AI_run w (Embed truncatedText) of
           Inr (DataResponse data) \<Rightarrow>
             (case data of
                [] \<Rightarrow> Inl (JsError ''Failed to generate embedding'')
              | v # _ \<Rightarrow> Inr v)
         | _ \<Rightarrow> Inl (JsError ''Failed to generate embedding''))"

section \<open>DatabaseService: workspace items\<close>

text \<open>
  The API type \<^verbatim>\<open>WorkspaceItem\<close> (its \<open>id\<close> is the field \<open>item_id\<close>) and the row
  mapping; \<^verbatim>\<open>row.custom_content || undefined\<close> turns NULL and the empty string into
  \<open>undefined\<close>.
\<close>

record WorkspaceItem =
  item_id :: string
  articleId :: string
  order :: int
  customContent :: "string option"
  customAnalysis :: "string option"
  isEdited :: bool
  createdAt :: string
  updatedAt :: string

definition mapWorkspaceItemRow :: "workspace_item_row \<Rightarrow> WorkspaceItem" where
  "mapWorkspaceItemRow row =
     \<lparr> item_id = wi_id row,
       articleId = wi_article_id row,
       order = wi_order_index row,
       customContent = or_undefined (wi_custom_content row),
       customAnalysis = or_undefined (wi_custom_analysis row),
       isEdited = (wi_is_edited row \<noteq> 0),
       createdAt = wi_created_at row,
       updatedAt = wi_updated_at row \<rparr>"

definition getWorkspaceItems :: "db \<Rightarrow> WorkspaceItem list" where
  "getWorkspaceItems d = map mapWorkspaceItemRow (sort_key wi_order_index (workspace_items d))"

subsection \<open>addToWorkspace\<close>

text \<open>
  \<open>SELECT COALESCE(MAX(order_index), -1) + 1 AS next_order\<close> always yields one row;
  \<^verbatim>\<open>maxOrderResult?.next_order || 0\<close> then replaces a falsy \<open>next_order\<close>, that is 0, by
  0. The insert leaves the new row's \<open>custom_content\<close> and \<open>custom_analysis\<close> NULL and
  its \<open>is_edited\<close> at the default 0; it is rejected when the identifier is taken
  (primary key) or no article has the given id (foreign key).
\<close>

definition next_order :: "db \<Rightarrow> int" where
  "next_order d =
     (case sql_max (map wi_order_index (workspace_items d)) of None \<Rightarrow> -1 | Some m \<Rightarrow> m) + 1"

definition addToWorkspace :: "world \<Rightarrow> db \<Rightarrow> string \<Rightarrow> js_exn + WorkspaceItem \<times> db" where
  "addToWorkspace w d article_id =
     (let ident = randomUUID w 0;
          t = now w;
          orderIndex = (if next_order d = 0 then 0 else next_order d)
      in if ident \<in> set (map wi_id (workspace_items d))
            \<or> article_id \<notin> set (map a_id (articles d))
         then Inl constraint_failed
         else Inr
           (\<lparr> item_id = ident, articleId = article_id, order = orderIndex,
               customContent = None, customAnalysis = None, isEdited = False,
               createdAt = t, updatedAt = t \<rparr>,
            d\<lparr> workspace_items := workspace_items d @
                 [\<lparr> wi_id = ident, wi_article_id = article_id, wi_order_index = orderIndex,
                    wi_custom_content = None, wi_custom_analysis = None, wi_is_edited = 0,
                    wi_created_at = t, wi_updated_at = t \<rparr>] \<rparr>))"

subsection \<open>updateWorkspaceItem\<close>

text \<open>
  \<^verbatim>\<open>Partial<WorkspaceItem>\<close>: every field may be left \<open>undefined\<close> (\<open>None\<close>). A supplied
  \<open>customContent\<close> or \<open>customAnalysis\<close> is the value bound to the column: a text, or
  NULL when the request body carried \<open>null\<close>.
\<close>

record WorkspaceItemPatch =
  upd_id :: "string option"
  upd_articleId :: "string option"
  upd_order :: "int option"
  upd_customContent :: "string option option"
  upd_customAnalysis :: "string option option"
  upd_isEdited :: "bool option"
  upd_createdAt :: "string option"
  upd_updatedAt :: "string option"

text \<open>
  The assignments of the \<open>UPDATE\<close>, collected in the order the source pushes them, and
  their effect on a row. The trigger \<open>update_workspace_items_updated_at\<close> then stamps
  the row.
\<close>

datatype assignment =
    Set_custom_content "string option"
  | Set_custom_analysis "string option"
  | Set_is_edited int
  | Set_order_index int

definition assign :: "assignment \<Rightarrow> workspace_item_row \<Rightarrow> workspace_item_row" where
  "assign a r =
     (case a of
        Set_custom_content v \<Rightarrow> r\<lparr>wi_custom_content := v\<rparr>
      | Set_custom_analysis v \<Rightarrow> r\<lparr>wi_custom_analysis := v\<rparr>
      | Set_is_edited v \<Rightarrow> r\<lparr>wi_is_edited := v\<rparr>
      | Set_order_index v \<Rightarrow> r\<lparr>wi_order_index := v\<rparr>)"

definition update_workspace_items ::
    "world \<Rightarrow> assignment list \<Rightarrow> string \<Rightarrow> workspace_item_row list \<Rightarrow> workspace_item_row list" where
  "update_workspace_items w sets ident rows =
     map (\<lambda>r. if wi_id r = ident then (fold assign sets r)\<lparr>wi_updated_at := datetime_now w\<rparr> else r)
       rows"

definition updateFields :: "WorkspaceItemPatch \<Rightarrow> assignment list" where
  "updateFields updates =
     (case upd_customContent updates of
        None \<Rightarrow> []
      | Some v \<Rightarrow> [Set_custom_content v, Set_is_edited 1]) @
     (case upd_customAnalysis updates of
        None \<Rightarrow> []
      | Some v \<Rightarrow> [Set_custom_analysis v, Set_is_edited 1])"

definition updateWorkspaceItem ::
    "world \<Rightarrow> db \<Rightarrow> string \<Rightarrow> WorkspaceItemPatch \<Rightarrow> WorkspaceItem option \<times> db" where
  "updateWorkspaceItem w d ident updates =
     (case find (\<lambda>r. wi_id r = ident) (workspace_items d) of
        None \<Rightarrow> (None, d)
      | Some existing \<Rightarrow>
          if updateFields updates = [] then (Some (mapWorkspaceItemRow existing), d)
          else
            let d' = d\<lparr>workspace_items :=
                       update_workspace_items w (updateFields updates) ident (workspace_items d)\<rparr>
            in (map_option mapWorkspaceItemRow (find (\<lambda>r. wi_id r = ident) (workspace_items d')),
                d'))"

section \<open>Workspace route: reorder\<close>



section \<open>Reports route: export\<close>







section \<open>DatabaseService: feeds and articles\<close>

text \<open>
  The API type \<^verbatim>\<open>Article\<close> and its row mapping. \<open>getArticles\<close> is modelled for the one
  way it is called here, with a \<open>limit\<close> and no filter: the rows that are not archived,
  newest first; the \<open>LIMIT\<close> clause is added only when \<^verbatim>\<open>options.limit\<close> is truthy.
\<close>

record Article =
  art_id :: string
  feedId :: string
  art_title :: string
  art_content :: string
  snippet :: string
  art_author :: "string option"
  publishedAt :: string
  url :: string
  isRead :: bool
  isArchived :: bool
  art_createdAt :: string
  art_updatedAt :: string
  category :: "string option"
  summary :: "string option"
  analysis :: "string option"

definition mapArticleRow :: "article_row \<Rightarrow> Article" where
  "mapArticleRow row =
     \<lparr> art_id = a_id row,
       feedId = a_feed_id row,
       art_title = a_title row,
       art_content = a_content row,
       snippet = a_snippet row,
       art_author = or_undefined (a_author row),
       publishedAt = a_published_at row,
       url = a_url row,
       isRead = (a_is_read row \<noteq> 0),
       isArchived = (a_is_archived row \<noteq> 0),
       art_createdAt = a_created_at row,
       art_updatedAt = a_updated_at row,
       category = or_undefined (a_category row),
       summary = or_undefined (a_summary row),
       analysis = or_undefined (a_analysis row) \<rparr>"

definition getArticles :: "db \<Rightarrow> int \<Rightarrow> Article list" where
  "getArticles d limit =
     map mapArticleRow
       ((if limit \<noteq> 0 then sql_limit limit else (\<lambda>rows. rows))
          (order_by_published_desc (filter (\<lambda>a. a_is_archived a = 0) (articles d))))"

definition getArticle :: "db \<Rightarrow> string \<Rightarrow> Article option" where
  "getArticle d ident = map_option mapArticleRow (find (\<lambda>a. a_id a = ident) (articles d))"

definition getRSSFeed :: "db \<Rightarrow> string \<Rightarrow> rss_feed_row option" where
  "getRSSFeed d ident = find (\<lambda>f. rf_id f = ident) (rss_feeds d)"

text \<open>
  \<open>createArticle\<close> takes an article without \<open>id\<close>, \<open>createdAt\<close> and \<open>updatedAt\<close>, draws
  the identifier and appends the row. The insert is rejected when the identifier is taken
  (primary key), when a row has the same \<open>url\<close> (\<open>url TEXT NOT NULL UNIQUE\<close>), or when
  no feed has the given \<open>feed_id\<close> (foreign key).
\<close>

record ArticleInput =
  new_feedId :: string
  new_title :: string
  new_content :: string
  new_snippet :: string
  new_author :: "string option"
  new_publishedAt :: string
  new_url :: string
  new_isRead :: bool
  new_isArchived :: bool
  new_category :: "string option"
  new_summary :: "string option"
  new_analysis :: "string option"

definition createArticle :: "world \<Rightarrow> nat \<Rightarrow> db \<Rightarrow> ArticleInput \<Rightarrow> js_exn + db" where
  "createArticle w i d article =
     (let ident = randomUUID w i;
          t = now w
      in if ident \<in> set (map a_id (articles d))
            \<or> new_url article \<in> set (map a_url (articles d))
            \<or> new_feedId article \<notin> set (map rf_id (rss_feeds d))
         then Inl constraint_failed
         else Inr (d\<lparr> articles := articles d @
                [\<lparr> a_id = ident,
                   a_feed_id = new_feedId article,
                   a_title = new_title article,
                   a_content = new_content article,
                   a_snippet = new_snippet article,
                   a_author = or_undefined (new_author article),
                   a_published_at = new_publishedAt article,
                   a_url = new_url article,
                   a_is_read = (if new_isRead article then 1 else 0),
                   a_is_archived = (if new_isArchived article then 1 else 0),
                   a_created_at = t,
                   a_updated_at = t,
                   a_category = or_undefined (new_category article),
                   a_summary = or_undefined (new_summary article),
                   a_analysis = or_undefined (new_analysis article) \<rparr>] \<rparr>))"

text \<open>
  \<open>updateRSSFeed(id, {lastFetched})\<close>: nothing for an unknown feed, else the column is
  set and the trigger \<open>update_rss_feeds_updated_at\<close> stamps the row.
\<close>

definition updateRSSFeed_lastFetched :: "world \<Rightarrow> db \<Rightarrow> string \<Rightarrow> string \<Rightarrow> db" where
  "updateRSSFeed_lastFetched w d ident t =
     (case getRSSFeed d ident of
        None \<Rightarrow> d
      | Some existing \<Rightarrow>
          d\<lparr>rss_feeds :=
              map (\<lambda>f. if rf_id f = ident
                        then f\<lparr>rf_last_fetched := Some t, rf_updated_at := datetime_now w\<rparr>
                        else f)
                (rss_feeds d)\<rparr>)"

text \<open>
  Deleting articles cascades (\<open>ON DELETE CASCADE\<close>) to the workspace items that
  reference them and from those to the report items.
\<close>

definition delete_articles :: "(article_row \<Rightarrow> bool) \<Rightarrow> db \<Rightarrow> db" where
  "delete_articles doomed d =
     (let gone = map a_id (filter doomed (articles d));
          gone_items = map wi_id (filter (\<lambda>wi. wi_article_id wi \<in> set gone) (workspace_items d))
      in d\<lparr> articles := filter (\<lambda>a. \<not> doomed a) (articles d),
            workspace_items := filter (\<lambda>wi. wi_article_id wi \<notin> set gone) (workspace_items d),
            report_items :=
              filter (\<lambda>ri. ri_workspace_item_id ri \<notin> set gone_items) (report_items d) \<rparr>)"

section \<open>FeedFetcher\<close>

record FetchResult =
  success :: bool
  articlesAdded :: nat
  error :: "string option"

definition extractContent :: "world \<Rightarrow> RSSItem \<Rightarrow> string" where
  "extractContent w item =
     (let c = or_string (js_or (content item) (contentSnippet item)) [];
          c' = (if c = [] \<and> truthy (title item) then or_string (title item) [] else c)
      in cleanText w c')"

text \<open>
  \<open>createSnippet\<close> is called with its default \<open>maxLength = 200\<close>, where
  \<^verbatim>\<open>maxLength * 0.7\<close> is exactly 140.
\<close>

definition createSnippet :: "world \<Rightarrow> RSSItem \<Rightarrow> nat \<Rightarrow> string" where
  "createSnippet w item maxLength =
     (let c = or_string (js_or (js_or (contentSnippet item) (content item)) (title item)) [];
          cleaned = cleanText w c
      in if length cleaned \<le> maxLength then cleaned
         else
           let truncated = substring0 cleaned (int maxLength);
               lastSentence = lastIndexOf truncated (CHR ''.'');
               lastSpace = lastIndexOf truncated (CHR '' '')
           in if 10 * lastSentence > 7 * int maxLength then substring0 truncated (lastSentence + 1)
              else if lastSpace > 0 then substring0 truncated lastSpace @ ''...''
              else truncated @ ''...'')"

definition parseDate :: "world \<Rightarrow> string option \<Rightarrow> string" where
  "parseDate w dateString =
     (if \<not> truthy dateString then now w
      else (case toISOString w (or_string dateString []) of None \<Rightarrow> now w | Some t \<Rightarrow> t))"

definition getMaxArticlesPerFeed :: "world \<Rightarrow> db \<Rightarrow> int option" where
  "getMaxArticlesPerFeed w d =
     (case store_fault w (SelectSetting ''max_articles_per_feed'') of
        Some e \<Rightarrow> Some 50
      | None \<Rightarrow>
          (case map_of (settings d) ''max_articles_per_feed'' of
             None \<Rightarrow> Some 50
           | Some v \<Rightarrow> parseInt10 v))"

text \<open>
  \<open>cleanupOldArticles\<close> catches and logs whatever its statement throws. What the store
  does with a NaN bound to \<open>LIMIT\<close> is not decided by the source; the model takes the
  statement as rejected then.
\<close>

definition cleanupOldArticles :: "world \<Rightarrow> db \<Rightarrow> string \<Rightarrow> int option \<Rightarrow> db" where
  "cleanupOldArticles w d feed_id maxArticles =
     (case store_fault w (DeleteOldArticles feed_id) of
        Some e \<Rightarrow> d
      | None \<Rightarrow>
          (case maxArticles of
             None \<Rightarrow> d
           | Some n \<Rightarrow>
               let keep = map a_id
                     (sql_limit n
                        (order_by_published_desc
                           (filter (\<lambda>a. a_feed_id a = feed_id) (articles d))))
               in delete_articles (\<lambda>a. a_feed_id a = feed_id \<and> a_id a \<notin> set keep) d))"

text \<open>
  One round of the loop over \<open>recentItems\<close>, for the \<open>i\<close>-th entry: \<open>Inl\<close> is a throw
  that leaves the loop (the lookup by url is outside the inner handler), \<open>Inr (d', k)\<close>
  goes on with the store \<open>d'\<close> and \<open>k\<close> more articles added. A failed
  \<open>createArticle\<close> is caught, logged and skipped.
\<close>

definition process_item ::
    "world \<Rightarrow> rss_feed_row \<Rightarrow> nat \<Rightarrow> RSSItem \<Rightarrow> db \<Rightarrow> js_exn + db \<times> nat" where
  "process_item w feed i item d =
     (if \<not> truthy (link item) \<or> \<not> truthy (title item) then Inr (d, 0)
      else
        let item_link = or_string (link item) [] in
        (case store_fault w (SelectArticleByUrl item_link) of
          Some e \<Rightarrow> Inl e
        | None \<Rightarrow>
            if find (\<lambda>a. a_url a = item_link) (articles d) \<noteq> None then Inr (d, 0)
            else
              let article =
                    \<lparr> new_feedId = rf_id feed,
                      new_title = cleanText w (or_string (title item) []),
                      new_content = extractContent w item,
                      new_snippet = createSnippet w item 200,
                      new_author = or_undefined (author item),
                      new_publishedAt = parseDate w (pubDate item),
                      new_url = item_link,
                      new_isRead = False,
                      new_isArchived = False,
                      new_category = Some (rf_category feed),
                      new_summary = None,
                      new_analysis = None \<rparr>
              in (case store_fault w (InsertArticle item_link) of
                    Some e \<Rightarrow> Inr (d, 0)
                  | None \<Rightarrow>
                      (case createArticle w i d article of
                         Inl e \<Rightarrow> Inr (d, 0)
                       | Inr d' \<Rightarrow> Inr (d', 1)))))"

fun process_items ::
    "world \<Rightarrow> rss_feed_row \<Rightarrow> nat \<Rightarrow> RSSItem list \<Rightarrow> db \<Rightarrow> nat \<Rightarrow> (js_exn + nat) \<times> db" where
  "process_items w feed i [] d added = (Inr added, d)"
| "process_items w feed i (item # rest) d added =
     (case process_item w feed i item d of
        Inl e \<Rightarrow> (Inl e, d)
      | Inr (d', k) \<Rightarrow> process_items w feed (Suc i) rest d' (added + k))"

text \<open>
  The body of \<open>fetchFeed\<close> inside its \<open>try\<close>: \<open>Inl\<close> is what reaches the handler,
  together with the store as the statements before the throw left it.
\<close>

definition fetchFeed_body :: "world \<Rightarrow> db \<Rightarrow> string \<Rightarrow> (js_exn + FetchResult) \<times> db" where
  "fetchFeed_body w d feed_id =
     (case store_fault w (SelectFeed feed_id) of
        Some e \<Rightarrow> (Inl e, d)
      | None \<Rightarrow>
          (case getRSSFeed d feed_id of
             None \<Rightarrow>
               (Inr \<lparr>success = False, articlesAdded = 0,
                     error = Some ''Feed not found or inactive''\<rparr>, d)
           | Some feed \<Rightarrow>
               if rf_is_active feed = 0
               then (Inr \<lparr>success = False, articlesAdded = 0,
                           error = Some ''Feed not found or inactive''\<rparr>, d)
               else
                 (case parseURL w (rf_url feed) of
                    Inl e \<Rightarrow> (Inl e, d)
                  | Inr parsed_items \<Rightarrow>
                      let items = (case parsed_items of None \<Rightarrow> [] | Some xs \<Rightarrow> xs);
                          maxArticles = getMaxArticlesPerFeed w d;
                          recentItems = slice0 items maxArticles
                      in (case process_items w feed 0 recentItems d 0 of
                            (Inl e, d1) \<Rightarrow> (Inl e, d1)
                          | (Inr added, d1) \<Rightarrow>
                              (case store_fault w (UpdateFeed feed_id) of
                                 Some e \<Rightarrow> (Inl e, d1)
                               | None \<Rightarrow>
                                   let d2 = updateRSSFeed_lastFetched w d1 feed_id (now w);
                                       d3 = cleanupOldArticles w d2 feed_id maxArticles
                                   in (Inr \<lparr>success = True, articlesAdded = added,
                                             error = None\<rparr>, d3))))))"

definition fetchFeed :: "world \<Rightarrow> db \<Rightarrow> string \<Rightarrow> FetchResult \<times> db" where
  "fetchFeed w d feed_id =
     (case fetchFeed_body w d feed_id of
        (Inr result, d') \<Rightarrow> (result, d')
      | (Inl e, d') \<Rightarrow>
          (\<lparr>success = False, articlesAdded = 0, error = Some (error_message e)\<rparr>, d'))"

section \<open>VectorSearchService\<close>

record SearchResult =
  res_articleId :: string
  score :: rat
  res_title :: string
  res_snippet :: string
  res_category :: "string option"
  res_publishedAt :: string

text \<open>
  A JavaScript \<open>Set\<close> built from an array is modelled as the list without repetitions;
  only its size and membership are read. The score is an exact rational, where the
  source computes in binary64.
\<close>

definition calculateTextSimilarity :: "string \<Rightarrow> Article \<Rightarrow> rat" where
  "calculateTextSimilarity query article =
     (let queryWords = remdups (split_ws (toLowerCase query));
          articleText =
            toLowerCase (art_title article @ '' '' @ snippet article @ '' '' @ art_content article);
          articleWords = remdups (split_ws articleText);
          intersection = remdups (filter (\<lambda>word. word \<in> set articleWords) queryWords);
          union = remdups (queryWords @ articleWords);
          similarity = rat_of_nat (length intersection) / rat_of_nat (length union);
          similarity1 =
            (if js_includes (toLowerCase (art_title article)) query
             then similarity + 3 / 10 else similarity);
          similarity2 =
            (if truthy (category article)
                \<and> js_includes (toLowerCase (or_string (category article) [])) query
             then similarity1 + 1 / 10 else similarity1)
      in min similarity2 1)"

definition search_result :: "string \<Rightarrow> Article \<Rightarrow> SearchResult" where
  "search_result query article =
     \<lparr> res_articleId = art_id article,
       score = calculateTextSimilarity (toLowerCase query) article,
       res_title = art_title article,
       res_snippet = snippet article,
       res_category = category article,
       res_publishedAt = publishedAt article \<rparr>"

text \<open>
  \<^verbatim>\<open>sort((a, b) => b.score - a.score)\<close> is a stable sort into descending score.
\<close>

definition searchSimilarArticles ::
    "world \<Rightarrow> db \<Rightarrow> string \<Rightarrow> int \<Rightarrow> js_exn + SearchResult list" where
  "searchSimilarArticles w d query limit =
     (case generateEmbedding w query of
        Inl e \<Rightarrow> Inl (JsError ''Failed to perform semantic search'')
      | Inr queryEmbedding \<Rightarrow>
          (case store_fault w SelectArticles of
             Some e \<Rightarrow> Inl (JsError ''Failed to perform semantic search'')
           | None \<Rightarrow>
               Inr (slice0
                      (sort_key (\<lambda>r. - score r)
                         (filter (\<lambda>r. score r > 0)
                            (map (search_result query) (getArticles d (limit * 3)))))
                      (Some limit))))"

definition findSimilarArticles ::
    "world \<Rightarrow> db \<Rightarrow> string \<Rightarrow> int \<Rightarrow> js_exn + SearchResult list" where
  "findSimilarArticles w d article_id limit =
     (case store_fault w (SelectArticle article_id) of
        Some e \<Rightarrow> Inl (JsError ''Failed to find similar articles'')
      | None \<Rightarrow>
          (case getArticle d article_id of
             None \<Rightarrow> Inl (JsError ''Failed to find similar articles'')
           | Some article \<Rightarrow>
               let searchQuery = art_title article @ '' '' @ snippet article
               in (case searchSimilarArticles w d searchQuery (limit + 1) of
                     Inl e \<Rightarrow> Inl (JsError ''Failed to find similar articles'')
                   | Inr results \<Rightarrow>
                       Inr (slice0 (filter (\<lambda>r. res_articleId r \<noteq> article_id) results)
                              (Some limit)))))"

section \<open>Example environments and stores\<close>

text \<open>
  Concrete values on which the results below are instantiated: an environment in which
  nothing fails, and builders for rows with the columns that matter.
\<close>

definition quiet_world :: world where
  "quiet_world =
     \<lparr> store_fault = (\<lambda>s. None),
       AI_run = (\<lambda>r. Inr (DataResponse [[1]])),
       parseURL = (\<lambda>u. Inr (Some [])),
       randomUUID = (\<lambda>i. ''new-'' @ replicate i (CHR ''x'')),
       now = ''2024-06-01T00:00:00.000Z'',
       datetime_now = ''2024-06-01 00:00:00'',
       toISOString = (\<lambda>s. Some s),
       cleanText = (\<lambda>s. s) \<rparr>"

definition empty_db :: db where
  "empty_db =
     \<lparr> rss_feeds = [], articles = [], workspace_items = [], reports = [],
       report_items = [], settings = [] \<rparr>"

definition feed_row :: "string \<Rightarrow> string \<Rightarrow> int \<Rightarrow> rss_feed_row" where
  "feed_row ident address active =
     \<lparr> rf_id = ident, rf_name = ''Feed'', rf_url = address, rf_category = ''News'',
       rf_is_active = active, rf_last_fetched = None,
       rf_created_at = ''2024-01-01 00:00:00'', rf_updated_at = ''2024-01-01 00:00:00'' \<rparr>"

definition article_at :: "string \<Rightarrow> string \<Rightarrow> string \<Rightarrow> string \<Rightarrow> article_row" where
  "article_at ident feed address published =
     \<lparr> a_id = ident, a_feed_id = feed, a_title = ''Title'', a_content = ''Body'',
       a_snippet = ''Body'', a_author = None, a_published_at = published, a_url = address,
       a_is_read = 0, a_is_archived = 0,
       a_created_at = ''2024-01-01 00:00:00'', a_updated_at = ''2024-01-01 00:00:00'',
       a_category = Some ''News'', a_summary = None, a_analysis = None \<rparr>"

definition item_row :: "string \<Rightarrow> string \<Rightarrow> int \<Rightarrow> string option \<Rightarrow> workspace_item_row" where
  "item_row ident article pos custom =
     \<lparr> wi_id = ident, wi_article_id = article, wi_order_index = pos,
       wi_custom_content = custom, wi_custom_analysis = None, wi_is_edited = 0,
       wi_created_at = ''2024-01-01 00:00:00'', wi_updated_at = ''2024-01-01 00:00:00'' \<rparr>"



text \<open>
  A store with an active feed \<open>f1\<close> of two articles, an inactive feed \<open>f2\<close> of three,
  and \<open>max_articles_per_feed\<close> set to 2; an environment whose parser finds three entries in
  the document of \<open>f1\<close>: one whose link is already stored, a new one, and one without a
  title.
\<close>

definition fetch_db :: db where
  "fetch_db =
     empty_db
       \<lparr> rss_feeds := [feed_row ''f1'' ''http://feed/1'' 1, feed_row ''f2'' ''http://feed/2'' 0],
         articles := [article_at ''a1'' ''f1'' ''http://x/1'' ''2024-05-01'',
                      article_at ''a2'' ''f1'' ''http://x/2'' ''2024-05-02'',
                      article_at ''b1'' ''f2'' ''http://y/1'' ''2024-05-01'',
                      article_at ''b2'' ''f2'' ''http://y/2'' ''2024-05-02'',
                      article_at ''b3'' ''f2'' ''http://y/3'' ''2024-05-03''],
         settings := [(''max_articles_per_feed'', ''2'')] \<rparr>"

definition entry :: "string option \<Rightarrow> string option \<Rightarrow> string option \<Rightarrow> RSSItem" where
  "entry t l p =
     \<lparr> title = t, link = l, content = None, contentSnippet = None, author = None,
       pubDate = p \<rparr>"

definition feed_world :: world where
  "feed_world =
     quiet_world
       \<lparr> parseURL := (\<lambda>u. Inr (Some
            [entry (Some ''Old'') (Some ''http://x/1'') (Some ''2024-05-01''),
             entry (Some ''New'') (Some ''http://x/9'') (Some ''2024-05-09''),
             entry None (Some ''http://x/8'') (Some ''2024-05-08'')])) \<rparr>"

text \<open>
  Two articles to search: one titled \<open>US-China Trade Relations\<close>, one about the weather.
\<close>

definition trade_article :: article_row where
  "trade_article =
     (article_at ''t1'' ''f1'' ''http://x/t1'' ''2024-05-02'')
       \<lparr> a_title := ''US-China Trade Relations'', a_snippet := ''Talks resume'',
         a_content := ''Talks resume'' \<rparr>"

definition weather_article :: article_row where
  "weather_article =
     (article_at ''t2'' ''f1'' ''http://x/t2'' ''2024-05-03'')
       \<lparr> a_title := ''Weather'', a_snippet := ''Rain'', a_content := ''Rain'' \<rparr>"

definition search_db :: db where
  "search_db = empty_db\<lparr>articles := [trade_article, weather_article]\<rparr>"


section \<open>Properties of the string helpers\<close>







section \<open>Properties of AIService\<close>















section \<open>Properties of the workspace operations\<close>

lemma sql_max_Max: "sql_max xs = (if xs = [] then None else Some (Max (set xs)))"
proof (cases xs)
  case Nil
  then show ?thesis by (simp add: sql_max_def)
next
  case (Cons y ys)
  then show ?thesis using Max.set_eq_fold[of y ys] by (simp add: sql_max_def)
qed

lemma next_order_Max:
  "next_order d =
     (if workspace_items d = [] then 0 else Max (wi_order_index ` set (workspace_items d)) + 1)"
  by (simp add: next_order_def sql_max_Max)

text \<open>
  Claim C1. When the insert is accepted (the drawn identifier is new and the article
  exists), \<open>addToWorkspace\<close> returns and stores an item whose order is the greatest
  \<open>order_index\<close> of the workspace plus 1, and 0 for an empty workspace; otherwise the
  store rejects the insert and nothing is added.
\<close>

theorem addToWorkspace_order:
  "(randomUUID w 0 \<notin> wi_id ` set (workspace_items d) \<and> article_id \<in> a_id ` set (articles d) \<longrightarrow>
      (\<exists>item row.
         addToWorkspace w d article_id
           = Inr (item, d\<lparr>workspace_items := workspace_items d @ [row]\<rparr>)
         \<and> order item =
             (if workspace_items d = [] then 0
              else Max (wi_order_index ` set (workspace_items d)) + 1)
         \<and> item = mapWorkspaceItemRow row
         \<and> wi_article_id row = article_id))
   \<and> (\<not> (randomUUID w 0 \<notin> wi_id ` set (workspace_items d) \<and> article_id \<in> a_id ` set (articles d)) \<longrightarrow>
        addToWorkspace w d article_id = Inl constraint_failed)"
proof (intro conjI impI)
  let ?n = "if workspace_items d = [] then 0 else Max (wi_order_index ` set (workspace_items d)) + 1"
  let ?row = "\<lparr> wi_id = randomUUID w 0, wi_article_id = article_id, wi_order_index = ?n,
                 wi_custom_content = None, wi_custom_analysis = None, wi_is_edited = 0,
                 wi_created_at = now w, wi_updated_at = now w \<rparr>"
  assume ok: "randomUUID w 0 \<notin> wi_id ` set (workspace_items d) \<and> article_id \<in> a_id ` set (articles d)"
  have falsy: "(if next_order d = 0 then 0 else next_order d) = ?n"
    by (simp add: next_order_Max)
  have "addToWorkspace w d article_id
          = Inr (mapWorkspaceItemRow ?row, d\<lparr>workspace_items := workspace_items d @ [?row]\<rparr>)"
    using ok unfolding addToWorkspace_def Let_def falsy
    by (simp add: mapWorkspaceItemRow_def or_undefined_def truthy_def)
  moreover have "order (mapWorkspaceItemRow ?row) = ?n"
    by (simp add: mapWorkspaceItemRow_def)
  ultimately show "\<exists>item row.
         addToWorkspace w d article_id
           = Inr (item, d\<lparr>workspace_items := workspace_items d @ [row]\<rparr>)
         \<and> order item = ?n
         \<and> item = mapWorkspaceItemRow row
         \<and> wi_article_id row = article_id"
    by (intro exI[of _ "mapWorkspaceItemRow ?row"] exI[of _ ?row]) simp
next
  assume "\<not> (randomUUID w 0 \<notin> wi_id ` set (workspace_items d) \<and> article_id \<in> a_id ` set (articles d))"
  then show "addToWorkspace w d article_id = Inl constraint_failed"
    unfolding addToWorkspace_def Let_def by auto
qed

theorem addToWorkspace_order_witness:
  "map_sum id (order \<circ> fst)
     (addToWorkspace quiet_world
        (empty_db\<lparr>articles := [article_at ''a1'' ''f1'' ''http://x/1'' ''2024-05-01'']\<rparr>) ''a1'')
     = Inr 0
   \<and> map_sum id (order \<circ> fst)
     (addToWorkspace quiet_world
        (empty_db\<lparr>articles := [article_at ''a1'' ''f1'' ''http://x/1'' ''2024-05-01''],
                  workspace_items := [item_row ''i1'' ''a1'' 0 None, item_row ''i2'' ''a1'' 4 None]\<rparr>)
        ''a1'')
     = Inr 5"
proof -
  let ?d1 = "empty_db\<lparr>articles := [article_at ''a1'' ''f1'' ''http://x/1'' ''2024-05-01'']\<rparr>"
  let ?d2 = "empty_db\<lparr>articles := [article_at ''a1'' ''f1'' ''http://x/1'' ''2024-05-01''],
                  workspace_items := [item_row ''i1'' ''a1'' 0 None, item_row ''i2'' ''a1'' 4 None]\<rparr>"
  have "randomUUID quiet_world 0 \<notin> wi_id ` set (workspace_items ?d1)
        \<and> ''a1'' \<in> a_id ` set (articles ?d1)"
    by (simp add: empty_db_def article_at_def)
  with addToWorkspace_order[of quiet_world ?d1 "''a1''"]
  obtain item1 row1 where
    "addToWorkspace quiet_world ?d1 ''a1'' = Inr (item1, ?d1\<lparr>workspace_items := workspace_items ?d1 @ [row1]\<rparr>)"
    "order item1 = (if workspace_items ?d1 = [] then 0 else Max (wi_order_index ` set (workspace_items ?d1)) + 1)"
    by blast
  then have one: "map_sum id (order \<circ> fst) (addToWorkspace quiet_world ?d1 ''a1'') = Inr 0"
    by (simp add: empty_db_def)
  have "randomUUID quiet_world 0 \<notin> wi_id ` set (workspace_items ?d2)
        \<and> ''a1'' \<in> a_id ` set (articles ?d2)"
    by (simp add: empty_db_def article_at_def item_row_def quiet_world_def)
  with addToWorkspace_order[of quiet_world ?d2 "''a1''"]
  obtain item2 row2 where
    "addToWorkspace quiet_world ?d2 ''a1'' = Inr (item2, ?d2\<lparr>workspace_items := workspace_items ?d2 @ [row2]\<rparr>)"
    "order item2 = (if workspace_items ?d2 = [] then 0 else Max (wi_order_index ` set (workspace_items ?d2)) + 1)"
    by blast
  then have two: "map_sum id (order \<circ> fst) (addToWorkspace quiet_world ?d2 ''a1'') = Inr 5"
    by (simp add: empty_db_def item_row_def)
  from one two show ?thesis by simp
qed









lemma updateFields_empty:
  "updateFields updates = [] \<longleftrightarrow> upd_customContent updates = None \<and> upd_customAnalysis updates = None"
  by (simp add: updateFields_def split: option.splits)

lemma fold_updateFields:
  "upd_customContent updates \<noteq> None \<or> upd_customAnalysis updates \<noteq> None \<Longrightarrow>
   (fold assign (updateFields updates) r)\<lparr>wi_updated_at := t\<rparr> =
     r\<lparr> wi_custom_content :=
           (case upd_customContent updates of None \<Rightarrow> wi_custom_content r | Some v \<Rightarrow> v),
        wi_custom_analysis :=
           (case upd_customAnalysis updates of None \<Rightarrow> wi_custom_analysis r | Some v \<Rightarrow> v),
        wi_is_edited := 1,
        wi_updated_at := t \<rparr>"
  by (auto simp: updateFields_def assign_def split: option.splits)

lemma find_map_same_id:
  assumes "\<And>r. wi_id (f r) = wi_id r"
  shows "find (\<lambda>r. wi_id r = x) (map (\<lambda>r. if wi_id r = x then f r else r) rows)
         = map_option f (find (\<lambda>r. wi_id r = x) rows)"
  using assms by (induction rows) auto


text \<open>
  Claim C8. \<open>updateWorkspaceItem\<close> returns null and writes nothing for an unknown id.
  For an existing item, a patch with neither \<open>customContent\<close> nor \<open>customAnalysis\<close>
  writes nothing and returns the item as it is. A patch with either one writes the
  supplied values to their columns, keeps the column of the one left undefined, sets
  \<open>is_edited\<close> (and the trigger's time stamp) and touches no other column and no other
  row; the item returned is the updated row, edited, with its id, article and order as
  before. Whatever else the patch carries is not read.
\<close>

theorem updateWorkspaceItem_partial_update:
  "(find (\<lambda>r. wi_id r = ident) (workspace_items d) = None \<longrightarrow>
      updateWorkspaceItem w d ident u = (None, d))
   \<and> (\<forall>existing. find (\<lambda>r. wi_id r = ident) (workspace_items d) = Some existing \<longrightarrow>
        (upd_customContent u = None \<and> upd_customAnalysis u = None \<longrightarrow>
           updateWorkspaceItem w d ident u = (Some (mapWorkspaceItemRow existing), d))
      \<and> (upd_customContent u \<noteq> None \<or> upd_customAnalysis u \<noteq> None \<longrightarrow>
           (\<exists>edit.
              edit = (\<lambda>r. r\<lparr> wi_custom_content :=
                                 (case upd_customContent u of
                                    None \<Rightarrow> wi_custom_content r | Some v \<Rightarrow> v),
                              wi_custom_analysis :=
                                 (case upd_customAnalysis u of
                                    None \<Rightarrow> wi_custom_analysis r | Some v \<Rightarrow> v),
                              wi_is_edited := 1,
                              wi_updated_at := datetime_now w \<rparr>)
              \<and> updateWorkspaceItem w d ident u =
                  (Some (mapWorkspaceItemRow (edit existing)),
                   d\<lparr>workspace_items :=
                       map (\<lambda>r. if wi_id r = ident then edit r else r) (workspace_items d)\<rparr>)
              \<and> isEdited (mapWorkspaceItemRow (edit existing))
              \<and> item_id (mapWorkspaceItemRow (edit existing)) = wi_id existing
              \<and> articleId (mapWorkspaceItemRow (edit existing)) = wi_article_id existing
              \<and> order (mapWorkspaceItemRow (edit existing)) = wi_order_index existing)))"
proof (intro conjI allI impI)
  assume "find (\<lambda>r. wi_id r = ident) (workspace_items d) = None"
  then show "updateWorkspaceItem w d ident u = (None, d)"
    by (simp add: updateWorkspaceItem_def)
next
  fix existing
  assume ex: "find (\<lambda>r. wi_id r = ident) (workspace_items d) = Some existing"
  assume "upd_customContent u = None \<and> upd_customAnalysis u = None"
  then have "updateFields u = []" by (simp add: updateFields_empty)
  then show "updateWorkspaceItem w d ident u = (Some (mapWorkspaceItemRow existing), d)"
    using ex by (simp add: updateWorkspaceItem_def)
next
  fix existing
  assume ex: "find (\<lambda>r. wi_id r = ident) (workspace_items d) = Some existing"
  assume some: "upd_customContent u \<noteq> None \<or> upd_customAnalysis u \<noteq> None"
  let ?edit = "\<lambda>r. r\<lparr> wi_custom_content :=
                         (case upd_customContent u of None \<Rightarrow> wi_custom_content r | Some v \<Rightarrow> v),
                      wi_custom_analysis :=
                         (case upd_customAnalysis u of None \<Rightarrow> wi_custom_analysis r | Some v \<Rightarrow> v),
                      wi_is_edited := 1,
                      wi_updated_at := datetime_now w \<rparr>"
  have ne: "updateFields u \<noteq> []" using some by (simp add: updateFields_empty)
  have rows: "update_workspace_items w (updateFields u) ident (workspace_items d)
        = map (\<lambda>r. if wi_id r = ident then ?edit r else r) (workspace_items d)"
    unfolding update_workspace_items_def using fold_updateFields[OF some] by simp
  have found: "find (\<lambda>r. wi_id r = ident)
          (map (\<lambda>r. if wi_id r = ident then ?edit r else r) (workspace_items d))
        = Some (?edit existing)"
    using find_map_same_id[of ?edit ident "workspace_items d"] ex by simp
  have run: "updateWorkspaceItem w d ident u =
      (Some (mapWorkspaceItemRow (?edit existing)),
       d\<lparr>workspace_items := map (\<lambda>r. if wi_id r = ident then ?edit r else r) (workspace_items d)\<rparr>)"
    using ex ne by (simp add: updateWorkspaceItem_def Let_def rows found)
  show "\<exists>edit.
          edit = ?edit
          \<and> updateWorkspaceItem w d ident u =
              (Some (mapWorkspaceItemRow (edit existing)),
               d\<lparr>workspace_items :=
                   map (\<lambda>r. if wi_id r = ident then edit r else r) (workspace_items d)\<rparr>)
          \<and> isEdited (mapWorkspaceItemRow (edit existing))
          \<and> item_id (mapWorkspaceItemRow (edit existing)) = wi_id existing
          \<and> articleId (mapWorkspaceItemRow (edit existing)) = wi_article_id existing
          \<and> order (mapWorkspaceItemRow (edit existing)) = wi_order_index existing"
    using run by (intro exI[of _ ?edit]) (simp add: mapWorkspaceItemRow_def)
qed

theorem updateWorkspaceItem_partial_update_witness:
  "map_option (\<lambda>i. (isEdited i, customContent i, customAnalysis i, item_id i, articleId i, order i))
     (fst (updateWorkspaceItem quiet_world
        (empty_db\<lparr>workspace_items :=
           [item_row ''i1'' ''a1'' 3 (Some ''mine''), item_row ''i2'' ''a2'' 4 None]\<rparr>)
        ''i1''
        \<lparr> upd_id = None, upd_articleId = None, upd_order = None, upd_customContent = None,
          upd_customAnalysis = Some (Some ''x''), upd_isEdited = None, upd_createdAt = None,
          upd_updatedAt = None \<rparr>))
     = Some (True, Some ''mine'', Some ''x'', ''i1'', ''a1'', 3)
   \<and> workspace_items (snd (updateWorkspaceItem quiet_world
        (empty_db\<lparr>workspace_items :=
           [item_row ''i1'' ''a1'' 3 (Some ''mine''), item_row ''i2'' ''a2'' 4 None]\<rparr>)
        ''i1''
        \<lparr> upd_id = None, upd_articleId = None, upd_order = None, upd_customContent = None,
          upd_customAnalysis = Some (Some ''x''), upd_isEdited = None, upd_createdAt = None,
          upd_updatedAt = None \<rparr>)) ! 1
     = item_row ''i2'' ''a2'' 4 None"
proof -
  let ?d = "empty_db\<lparr>workspace_items :=
           [item_row ''i1'' ''a1'' 3 (Some ''mine''), item_row ''i2'' ''a2'' 4 None]\<rparr>"
  let ?u = "\<lparr> upd_id = None, upd_articleId = None, upd_order = None, upd_customContent = None,
          upd_customAnalysis = Some (Some ''x''), upd_isEdited = None, upd_createdAt = None,
          upd_updatedAt = None \<rparr>"
  have f: "find (\<lambda>r. wi_id r = ''i1'') (workspace_items ?d) = Some (item_row ''i1'' ''a1'' 3 (Some ''mine''))"
    by (simp add: empty_db_def item_row_def)
  have s: "upd_customContent ?u \<noteq> None \<or> upd_customAnalysis ?u \<noteq> None" by simp
  from updateWorkspaceItem_partial_update[of "''i1''" ?d quiet_world ?u] f s
  obtain edit where
    e: "edit = (\<lambda>r. r\<lparr> wi_custom_content :=
                                 (case upd_customContent ?u of
                                    None \<Rightarrow> wi_custom_content r | Some v \<Rightarrow> v),
                              wi_custom_analysis :=
                                 (case upd_customAnalysis ?u of
                                    None \<Rightarrow> wi_custom_analysis r | Some v \<Rightarrow> v),
                              wi_is_edited := 1,
                              wi_updated_at := datetime_now quiet_world \<rparr>)"
    and r: "updateWorkspaceItem quiet_world ?d ''i1'' ?u =
                  (Some (mapWorkspaceItemRow (edit (item_row ''i1'' ''a1'' 3 (Some ''mine'')))),
                   ?d\<lparr>workspace_items :=
                       map (\<lambda>r. if wi_id r = ''i1'' then edit r else r) (workspace_items ?d)\<rparr>)"
    by blast
  show ?thesis
    unfolding r unfolding e
    by (simp add: empty_db_def item_row_def mapWorkspaceItemRow_def or_undefined_def truthy_def)
qed

section \<open>Properties of the report export\<close>












section \<open>Properties of the fetcher\<close>

lemma find_url_iff:
  "find (\<lambda>a. a_url a = l) rows \<noteq> None \<longleftrightarrow> l \<in> a_url ` set rows"
  by (auto simp: find_None_iff)


lemma process_item_Inr:
  assumes "process_item w feed i item d = Inr (d', k)"
  shows "(d' = d \<and> k = 0)
       \<or> (k = 1 \<and> (\<exists>row. d' = d\<lparr>articles := articles d @ [row]\<rparr>
              \<and> a_url row = or_string (link item) []
              \<and> a_url row \<notin> a_url ` set (articles d)
              \<and> a_id row \<notin> a_id ` set (articles d)
              \<and> a_feed_id row = rf_id feed))"
proof (cases "\<not> truthy (link item) \<or> \<not> truthy (title item)")
  case True
  then show ?thesis using assms by (simp add: process_item_def)
next
  case ok: False
  show ?thesis
  proof (cases "store_fault w (SelectArticleByUrl (or_string (link item) []))")
    case (Some e)
    then show ?thesis using assms ok by (simp add: process_item_def Let_def)
  next
    case None
    show ?thesis
    proof (cases "or_string (link item) [] \<in> a_url ` set (articles d)")
      case True
      then have "find (\<lambda>a. a_url a = or_string (link item) []) (articles d) \<noteq> None"
        by (simp only: find_url_iff)
      then show ?thesis using assms ok None by (simp add: process_item_def Let_def)
    next
      case fresh: False
      then have nf: "find (\<lambda>a. a_url a = or_string (link item) []) (articles d) = None"
        using find_url_iff[of "or_string (link item) []" "articles d"] by blast
      show ?thesis
      proof (cases "store_fault w (InsertArticle (or_string (link item) []))")
        case (Some e)
        then show ?thesis using assms ok None nf by (simp add: process_item_def Let_def)
      next
        case ins: None
        show ?thesis
          using assms ok None nf ins fresh
          unfolding process_item_def createArticle_def Let_def
          by (auto split: if_splits)
      qed
    qed
  qed
qed

lemma process_item_known_url:
  assumes "link item = Some l" and "l \<in> a_url ` set (articles d)"
  shows "process_item w feed i item d = Inr (d, 0)
       \<or> (\<exists>e. process_item w feed i item d = Inl e \<and> store_fault w (SelectArticleByUrl l) = Some e)"
proof (cases "\<not> truthy (link item) \<or> \<not> truthy (title item)")
  case True
  then show ?thesis by (simp add: process_item_def)
next
  case ok: False
  then have l: "or_string (link item) [] = l"
    using assms(1) by (simp add: truthy_def or_string_def)
  have "find (\<lambda>a. a_url a = l) (articles d) \<noteq> None"
    using assms(2) by (simp only: find_url_iff)
  then show ?thesis
    using ok l unfolding process_item_def Let_def
    by (cases "store_fault w (SelectArticleByUrl l)") simp_all
qed

lemma process_items_appends:
  "process_items w feed i items d added = (r, d') \<Longrightarrow>
   \<exists>new. d' = d\<lparr>articles := articles d @ new\<rparr>
     \<and> (\<forall>row \<in> set new. a_feed_id row = rf_id feed
            \<and> a_url row \<notin> a_url ` set (articles d)
            \<and> a_id row \<notin> a_id ` set (articles d))
     \<and> distinct (map a_url new) \<and> distinct (map a_id new)"
proof (induction items arbitrary: i d added)
  case Nil
  then show ?case by (intro exI[of _ "[]"]) simp
next
  case (Cons item rest)
  show ?case
  proof (cases "process_item w feed i item d")
    case (Inl e)
    then have "d' = d" using Cons.prems by simp
    then show ?thesis by (intro exI[of _ "[]"]) simp
  next
    case (Inr p)
    obtain d1 k where p: "p = (d1, k)" by (cases p)
    from Cons.prems Inr p
    have rec: "process_items w feed (Suc i) rest d1 (added + k) = (r, d')" by simp
    from Cons.IH[OF rec] obtain new1 where
      n1: "d' = d1\<lparr>articles := articles d1 @ new1\<rparr>"
      and n2: "\<forall>row \<in> set new1. a_feed_id row = rf_id feed
            \<and> a_url row \<notin> a_url ` set (articles d1)
            \<and> a_id row \<notin> a_id ` set (articles d1)"
      and n3: "distinct (map a_url new1)" "distinct (map a_id new1)"
      by blast
    from process_item_Inr[OF Inr[unfolded p]]
    consider (same) "d1 = d" | (more) row where "d1 = d\<lparr>articles := articles d @ [row]\<rparr>"
        "a_url row \<notin> a_url ` set (articles d)" "a_id row \<notin> a_id ` set (articles d)"
        "a_feed_id row = rf_id feed"
      by blast
    then show ?thesis
    proof cases
      case same
      then show ?thesis using n1 n2 n3 by (intro exI[of _ new1]) simp
    next
      case more
      have "d' = d\<lparr>articles := articles d @ (row # new1)\<rparr>"
        using n1 more(1) by simp
      moreover have "\<forall>r \<in> set (row # new1). a_feed_id r = rf_id feed
            \<and> a_url r \<notin> a_url ` set (articles d)
            \<and> a_id r \<notin> a_id ` set (articles d)"
        using n2 more by auto
      moreover have "distinct (map a_url (row # new1))" "distinct (map a_id (row # new1))"
        using n2 n3 more(1) by auto
      ultimately show ?thesis by (intro exI[of _ "row # new1"]) blast
    qed
  qed
qed


lemma getRSSFeed_id: "getRSSFeed d fid = Some feed \<Longrightarrow> rf_id feed = fid"
  by (auto simp: getRSSFeed_def find_Some_iff)

lemma fetch_lookup_rejected:
  "store_fault w (SelectFeed fid) = Some e \<Longrightarrow>
   fetchFeed w d fid =
     (\<lparr>success = False, articlesAdded = 0, error = Some (error_message e)\<rparr>, d)"
  by (simp add: fetchFeed_def fetchFeed_body_def)

lemma fetch_missing_or_inactive:
  "store_fault w (SelectFeed fid) = None \<Longrightarrow>
   getRSSFeed d fid = None \<or> (\<exists>feed. getRSSFeed d fid = Some feed \<and> rf_is_active feed = 0) \<Longrightarrow>
   fetchFeed_body w d fid =
     (Inr \<lparr>success = False, articlesAdded = 0, error = Some ''Feed not found or inactive''\<rparr>, d)
   \<and> fetchFeed w d fid =
     (\<lparr>success = False, articlesAdded = 0, error = Some ''Feed not found or inactive''\<rparr>, d)"
  by (auto simp: fetchFeed_def fetchFeed_body_def)

lemma fetch_parse_throws:
  "store_fault w (SelectFeed fid) = None \<Longrightarrow> getRSSFeed d fid = Some feed \<Longrightarrow>
   rf_is_active feed \<noteq> 0 \<Longrightarrow> parseURL w (rf_url feed) = Inl e \<Longrightarrow>
   fetchFeed w d fid =
     (\<lparr>success = False, articlesAdded = 0, error = Some (error_message e)\<rparr>, d)"
  by (simp add: fetchFeed_def fetchFeed_body_def)

lemma fetch_entry_throws:
  "store_fault w (SelectFeed fid) = None \<Longrightarrow> getRSSFeed d fid = Some feed \<Longrightarrow>
   rf_is_active feed \<noteq> 0 \<Longrightarrow> parseURL w (rf_url feed) = Inr parsed \<Longrightarrow>
   process_items w feed 0
     (slice0 (case parsed of None \<Rightarrow> [] | Some xs \<Rightarrow> xs) (getMaxArticlesPerFeed w d)) d 0
     = (Inl e, d1) \<Longrightarrow>
   fetchFeed w d fid =
     (\<lparr>success = False, articlesAdded = 0, error = Some (error_message e)\<rparr>, d1)"
  by (simp add: fetchFeed_def fetchFeed_body_def Let_def)

lemma fetch_touch_rejected:
  "store_fault w (SelectFeed fid) = None \<Longrightarrow> getRSSFeed d fid = Some feed \<Longrightarrow>
   rf_is_active feed \<noteq> 0 \<Longrightarrow> parseURL w (rf_url feed) = Inr parsed \<Longrightarrow>
   process_items w feed 0
     (slice0 (case parsed of None \<Rightarrow> [] | Some xs \<Rightarrow> xs) (getMaxArticlesPerFeed w d)) d 0
     = (Inr added, d1) \<Longrightarrow>
   store_fault w (UpdateFeed fid) = Some e \<Longrightarrow>
   fetchFeed w d fid =
     (\<lparr>success = False, articlesAdded = 0, error = Some (error_message e)\<rparr>, d1)"
  by (simp add: fetchFeed_def fetchFeed_body_def Let_def)

lemma fetch_completes:
  "store_fault w (SelectFeed fid) = None \<Longrightarrow> getRSSFeed d fid = Some feed \<Longrightarrow>
   rf_is_active feed \<noteq> 0 \<Longrightarrow> parseURL w (rf_url feed) = Inr parsed \<Longrightarrow>
   process_items w feed 0
     (slice0 (case parsed of None \<Rightarrow> [] | Some xs \<Rightarrow> xs) (getMaxArticlesPerFeed w d)) d 0
     = (Inr added, d1) \<Longrightarrow>
   store_fault w (UpdateFeed fid) = None \<Longrightarrow>
   fetchFeed w d fid =
     (\<lparr>success = True, articlesAdded = added, error = None\<rparr>,
      cleanupOldArticles w (updateRSSFeed_lastFetched w d1 fid (now w)) fid
        (getMaxArticlesPerFeed w d))"
  by (simp add: fetchFeed_def fetchFeed_body_def Let_def)

text \<open>The six ways through \<open>fetchFeed\<close>.\<close>

lemma fetch_cases:
  obtains
    (lookup_rejected) e where "store_fault w (SelectFeed fid) = Some e"
  | (missing_or_inactive) "store_fault w (SelectFeed fid) = None"
      "getRSSFeed d fid = None \<or> (\<exists>feed. getRSSFeed d fid = Some feed \<and> rf_is_active feed = 0)"
  | (parse_throws) feed e where "store_fault w (SelectFeed fid) = None"
      "getRSSFeed d fid = Some feed" "rf_is_active feed \<noteq> 0" "parseURL w (rf_url feed) = Inl e"
  | (entry_throws) feed parsed e d1 where "store_fault w (SelectFeed fid) = None"
      "getRSSFeed d fid = Some feed" "rf_is_active feed \<noteq> 0"
      "parseURL w (rf_url feed) = Inr parsed"
      "process_items w feed 0
         (slice0 (case parsed of None \<Rightarrow> [] | Some xs \<Rightarrow> xs) (getMaxArticlesPerFeed w d)) d 0
         = (Inl e, d1)"
  | (touch_rejected) feed parsed added d1 e where "store_fault w (SelectFeed fid) = None"
      "getRSSFeed d fid = Some feed" "rf_is_active feed \<noteq> 0"
      "parseURL w (rf_url feed) = Inr parsed"
      "process_items w feed 0
         (slice0 (case parsed of None \<Rightarrow> [] | Some xs \<Rightarrow> xs) (getMaxArticlesPerFeed w d)) d 0
         = (Inr added, d1)"
      "store_fault w (UpdateFeed fid) = Some e"
  | (completes) feed parsed added d1 where "store_fault w (SelectFeed fid) = None"
      "getRSSFeed d fid = Some feed" "rf_is_active feed \<noteq> 0"
      "parseURL w (rf_url feed) = Inr parsed"
      "process_items w feed 0
         (slice0 (case parsed of None \<Rightarrow> [] | Some xs \<Rightarrow> xs) (getMaxArticlesPerFeed w d)) d 0
         = (Inr added, d1)"
      "store_fault w (UpdateFeed fid) = None"
proof (cases "store_fault w (SelectFeed fid)")
  case (Some e)
  then show ?thesis by (rule lookup_rejected)
next
  case None
  show ?thesis
  proof (cases "getRSSFeed d fid")
    case nofeed: None
    then show ?thesis using None by (intro missing_or_inactive) simp_all
  next
    case (Some feed)
    show ?thesis
    proof (cases "rf_is_active feed = 0")
      case True
      then show ?thesis using None Some by (intro missing_or_inactive) simp_all
    next
      case active: False
      show ?thesis
      proof (cases "parseURL w (rf_url feed)")
        case (Inl e)
        then show ?thesis using None Some active by (intro parse_throws)
      next
        case (Inr parsed)
        obtain r d1 where run: "process_items w feed 0
           (slice0 (case parsed of None \<Rightarrow> [] | Some xs \<Rightarrow> xs) (getMaxArticlesPerFeed w d)) d 0
           = (r, d1)"
          by (meson surj_pair)
        show ?thesis
        proof (cases r)
          case (Inl e)
          then show ?thesis using None Some active Inr run by (intro entry_throws) simp_all
        next
          case added: (Inr added)
          show ?thesis
          proof (cases "store_fault w (UpdateFeed fid)")
            case (Some e)
            then show ?thesis
              using None \<open>getRSSFeed d fid = Some feed\<close> active Inr run added
              by (intro touch_rejected) simp_all
          next
            case touch: None
            then show ?thesis
              using None Some active Inr run added by (intro completes) simp_all
          qed
        qed
      qed
    qed
  qed
qed

lemma cleanup_is_filter:
  "\<exists>P. articles (cleanupOldArticles w d fid m) = filter P (articles d)
       \<and> (\<forall>a. a_feed_id a \<noteq> fid \<longrightarrow> P a)"
proof (cases "store_fault w (DeleteOldArticles fid) = None \<and> m \<noteq> None")
  case True
  then obtain n where "m = Some n" by auto
  then show ?thesis
    using True unfolding cleanupOldArticles_def delete_articles_def Let_def
    by (intro exI[of _ "\<lambda>a. \<not> (a_feed_id a = fid \<and> a_id a \<notin> set (map a_id
           (sql_limit n (order_by_published_desc (filter (\<lambda>a. a_feed_id a = fid) (articles d))))))"])
       simp
next
  case False
  then have "cleanupOldArticles w d fid m = d"
    by (auto simp: cleanupOldArticles_def split: option.splits)
  then show ?thesis by (intro exI[of _ "\<lambda>a. True"]) simp
qed









lemma fetch_final_state:
  "\<exists>new.
     (\<forall>row \<in> set new. a_feed_id row = fid
         \<and> a_url row \<notin> a_url ` set (articles d)
         \<and> a_id row \<notin> a_id ` set (articles d))
     \<and> distinct (map a_url new) \<and> distinct (map a_id new)
     \<and> (if success (fst (fetchFeed w d fid))
         then snd (fetchFeed w d fid) =
                cleanupOldArticles w
                  (updateRSSFeed_lastFetched w (d\<lparr>articles := articles d @ new\<rparr>) fid (now w))
                  fid (getMaxArticlesPerFeed w d)
         else snd (fetchFeed w d fid) = d\<lparr>articles := articles d @ new\<rparr>)"
proof (cases rule: fetch_cases[where w=w and fid=fid and d=d])
  case (lookup_rejected e)
  then show ?thesis by (intro exI[of _ "[]"]) (simp add: fetch_lookup_rejected)
next
  case missing_or_inactive
  then show ?thesis using fetch_missing_or_inactive[of w fid d]
    by (intro exI[of _ "[]"]) simp
next
  case (parse_throws feed e)
  then show ?thesis by (intro exI[of _ "[]"]) (simp add: fetch_parse_throws)
next
  case (entry_throws feed parsed e d1)
  from process_items_appends[OF entry_throws(5)] obtain new where
    new: "d1 = d\<lparr>articles := articles d @ new\<rparr>"
      "\<forall>row \<in> set new. a_feed_id row = rf_id feed
            \<and> a_url row \<notin> a_url ` set (articles d)
            \<and> a_id row \<notin> a_id ` set (articles d)"
      "distinct (map a_url new)" "distinct (map a_id new)"
    by blast
  have fid: "rf_id feed = fid" using entry_throws(2) by (rule getRSSFeed_id)
  have props: "\<forall>row \<in> set new. a_feed_id row = fid
            \<and> a_url row \<notin> a_url ` set (articles d)
            \<and> a_id row \<notin> a_id ` set (articles d)"
    using new(2) unfolding fid .
  note res = fetch_entry_throws[OF entry_throws, unfolded new(1)]
  show ?thesis
  proof (intro exI[of _ new] conjI)
    show "\<forall>row \<in> set new. a_feed_id row = fid
            \<and> a_url row \<notin> a_url ` set (articles d)
            \<and> a_id row \<notin> a_id ` set (articles d)" by (rule props)
    show "distinct (map a_url new)" by (rule new(3))
    show "distinct (map a_id new)" by (rule new(4))
    show "if success (fst (fetchFeed w d fid))
         then snd (fetchFeed w d fid) =
                cleanupOldArticles w
                  (updateRSSFeed_lastFetched w (d\<lparr>articles := articles d @ new\<rparr>) fid (now w))
                  fid (getMaxArticlesPerFeed w d)
         else snd (fetchFeed w d fid) = d\<lparr>articles := articles d @ new\<rparr>"
      unfolding res by simp
  qed
next
  case (touch_rejected feed parsed added d1 e)
  from process_items_appends[OF touch_rejected(5)] obtain new where
    new: "d1 = d\<lparr>articles := articles d @ new\<rparr>"
      "\<forall>row \<in> set new. a_feed_id row = rf_id feed
            \<and> a_url row \<notin> a_url ` set (articles d)
            \<and> a_id row \<notin> a_id ` set (articles d)"
      "distinct (map a_url new)" "distinct (map a_id new)"
    by blast
  have fid: "rf_id feed = fid" using touch_rejected(2) by (rule getRSSFeed_id)
  have props: "\<forall>row \<in> set new. a_feed_id row = fid
            \<and> a_url row \<notin> a_url ` set (articles d)
            \<and> a_id row \<notin> a_id ` set (articles d)"
    using new(2) unfolding fid .
  note res = fetch_touch_rejected[OF touch_rejected, unfolded new(1)]
  show ?thesis
  proof (intro exI[of _ new] conjI)
    show "\<forall>row \<in> set new. a_feed_id row = fid
            \<and> a_url row \<notin> a_url ` set (articles d)
            \<and> a_id row \<notin> a_id ` set (articles d)" by (rule props)
    show "distinct (map a_url new)" by (rule new(3))
    show "distinct (map a_id new)" by (rule new(4))
    show "if success (fst (fetchFeed w d fid))
         then snd (fetchFeed w d fid) =
                cleanupOldArticles w
                  (updateRSSFeed_lastFetched w (d\<lparr>articles := articles d @ new\<rparr>) fid (now w))
                  fid (getMaxArticlesPerFeed w d)
         else snd (fetchFeed w d fid) = d\<lparr>articles := articles d @ new\<rparr>"
      unfolding res by simp
  qed
next
  case (completes feed parsed added d1)
  from process_items_appends[OF completes(5)] obtain new where
    new: "d1 = d\<lparr>articles := articles d @ new\<rparr>"
      "\<forall>row \<in> set new. a_feed_id row = rf_id feed
            \<and> a_url row \<notin> a_url ` set (articles d)
            \<and> a_id row \<notin> a_id ` set (articles d)"
      "distinct (map a_url new)" "distinct (map a_id new)"
    by blast
  have fid: "rf_id feed = fid" using completes(2) by (rule getRSSFeed_id)
  have props: "\<forall>row \<in> set new. a_feed_id row = fid
            \<and> a_url row \<notin> a_url ` set (articles d)
            \<and> a_id row \<notin> a_id ` set (articles d)"
    using new(2) unfolding fid .
  note res = fetch_completes[OF completes, unfolded new(1)]
  show ?thesis
  proof (intro exI[of _ new] conjI)
    show "\<forall>row \<in> set new. a_feed_id row = fid
            \<and> a_url row \<notin> a_url ` set (articles d)
            \<and> a_id row \<notin> a_id ` set (articles d)" by (rule props)
    show "distinct (map a_url new)" by (rule new(3))
    show "distinct (map a_id new)" by (rule new(4))
    show "if success (fst (fetchFeed w d fid))
         then snd (fetchFeed w d fid) =
                cleanupOldArticles w
                  (updateRSSFeed_lastFetched w (d\<lparr>articles := articles d @ new\<rparr>) fid (now w))
                  fid (getMaxArticlesPerFeed w d)
         else snd (fetchFeed w d fid) = d\<lparr>articles := articles d @ new\<rparr>"
      unfolding res by simp
  qed
qed

lemma touch_articles: "articles (updateRSSFeed_lastFetched w d fid t) = articles d"
  by (simp add: updateRSSFeed_lastFetched_def split: option.splits)

lemma touch_settings: "settings (updateRSSFeed_lastFetched w d fid t) = settings d"
  by (simp add: updateRSSFeed_lastFetched_def split: option.splits)

lemma distinct_appended:
  assumes "distinct (map f old)" and "distinct (map f new)"
    and "\<forall>row \<in> set new. f row \<notin> f ` set old"
  shows "distinct (map f (old @ new))"
proof -
  have ne: "f x \<noteq> f y" if x: "x \<in> set old" and y: "y \<in> set new" for x y
  proof
    assume eq: "f x = f y"
    have "f x \<in> f ` set old" using x by (rule imageI)
    then have "f y \<in> f ` set old" unfolding eq .
    moreover have "f y \<notin> f ` set old" using assms(3) y by (rule bspec)
    ultimately show False by contradiction
  qed
  have "f ` set old \<inter> f ` set new = {}"
  proof (rule equals0I)
    fix v assume "v \<in> f ` set old \<inter> f ` set new"
    then obtain x y where "x \<in> set old" "v = f x" "y \<in> set new" "v = f y"
      by (elim IntE imageE)
    then show False using ne[of x y] by simp
  qed
  then show ?thesis using assms(1,2) by simp
qed




lemma feed_world_faults: "store_fault feed_world s = None"
  by (simp add: feed_world_def quiet_world_def)








lemma fetch_urls_distinct:
  assumes "distinct (map a_url (articles d))"
  shows "distinct (map a_url (articles (snd (fetchFeed w d fid))))"
proof -
  from fetch_final_state[of fid d w] obtain new where
    new: "\<forall>row \<in> set new. a_feed_id row = fid
         \<and> a_url row \<notin> a_url ` set (articles d)
         \<and> a_id row \<notin> a_id ` set (articles d)"
    and dn: "distinct (map a_url new)"
    and fin: "if success (fst (fetchFeed w d fid))
         then snd (fetchFeed w d fid) =
                cleanupOldArticles w
                  (updateRSSFeed_lastFetched w (d\<lparr>articles := articles d @ new\<rparr>) fid (now w))
                  fid (getMaxArticlesPerFeed w d)
         else snd (fetchFeed w d fid) = d\<lparr>articles := articles d @ new\<rparr>"
    by blast
  have "\<forall>row \<in> set new. a_url row \<notin> a_url ` set (articles d)" using new by simp
  with assms dn have all: "distinct (map a_url (articles d @ new))" by (rule distinct_appended)
  show ?thesis
  proof (cases "success (fst (fetchFeed w d fid))")
    case True
    define d2 where "d2 = updateRSSFeed_lastFetched w (d\<lparr>articles := articles d @ new\<rparr>) fid (now w)"
    have a2: "articles d2 = articles d @ new" unfolding d2_def by (simp add: touch_articles)
    obtain P where P: "articles (cleanupOldArticles w d2 fid (getMaxArticlesPerFeed w d))
          = filter P (articles d2)"
      using cleanup_is_filter[of w d2 fid "getMaxArticlesPerFeed w d"] by blast
    have "snd (fetchFeed w d fid) = cleanupOldArticles w d2 fid (getMaxArticlesPerFeed w d)"
      using fin True unfolding d2_def by simp
    then show ?thesis unfolding P a2 using all by (simp only: P a2 distinct_map_filter)
  next
    case False
    then have "snd (fetchFeed w d fid) = d\<lparr>articles := articles d @ new\<rparr>" using fin by simp
    then show ?thesis using all by simp
  qed
qed

lemma fetch_rows_old_or_new:
  assumes "a \<in> set (articles (snd (fetchFeed w d fid)))"
  shows "a \<in> set (articles d) \<or> a_url a \<notin> a_url ` set (articles d)"
proof -
  from fetch_final_state[of fid d w] obtain new where
    new: "\<forall>row \<in> set new. a_feed_id row = fid
         \<and> a_url row \<notin> a_url ` set (articles d)
         \<and> a_id row \<notin> a_id ` set (articles d)"
    and fin: "if success (fst (fetchFeed w d fid))
         then snd (fetchFeed w d fid) =
                cleanupOldArticles w
                  (updateRSSFeed_lastFetched w (d\<lparr>articles := articles d @ new\<rparr>) fid (now w))
                  fid (getMaxArticlesPerFeed w d)
         else snd (fetchFeed w d fid) = d\<lparr>articles := articles d @ new\<rparr>"
    by blast
  have "a \<in> set (articles d @ new)"
  proof (cases "success (fst (fetchFeed w d fid))")
    case True
    define d2 where "d2 = updateRSSFeed_lastFetched w (d\<lparr>articles := articles d @ new\<rparr>) fid (now w)"
    have a2: "articles d2 = articles d @ new" unfolding d2_def by (simp add: touch_articles)
    obtain P where P: "articles (cleanupOldArticles w d2 fid (getMaxArticlesPerFeed w d))
          = filter P (articles d2)"
      using cleanup_is_filter[of w d2 fid "getMaxArticlesPerFeed w d"] by blast
    have "snd (fetchFeed w d fid) = cleanupOldArticles w d2 fid (getMaxArticlesPerFeed w d)"
      using fin True unfolding d2_def by simp
    then have "a \<in> set (filter P (articles d @ new))" using assms by (simp only: P a2)
    then show ?thesis by (rule subsetD[OF filter_is_subset])
  next
    case False
    then have "snd (fetchFeed w d fid) = d\<lparr>articles := articles d @ new\<rparr>" using fin by simp
    then show ?thesis using assms by simp
  qed
  then have "a \<in> set (articles d) \<or> a \<in> set new" by simp
  then show ?thesis using new by (elim disjE) simp_all
qed

lemma createArticle_unique_url:
  "new_url article \<in> a_url ` set (articles d) \<Longrightarrow> createArticle w i d article = Inl constraint_failed"
  by (simp add: createArticle_def Let_def)

text \<open>
  Claim C4. An entry whose link is the url of a stored article changes nothing: it is
  skipped, or the lookup itself is rejected and the fetch stops there. The store would
  reject an insert with a stored url in any case (\<open>url\<close> is unique). Hence a fetch keeps
  urls unique, and every article present after a fetch is either a row that was there
  before, unchanged, or has a url that no row had before.
\<close>

theorem fetchFeed_skips_known_urls:
  "(link item = Some l \<and> l \<in> a_url ` set (articles d) \<longrightarrow>
      process_item w feed i item d = Inr (d, 0)
      \<or> (\<exists>e. process_item w feed i item d = Inl e \<and> store_fault w (SelectArticleByUrl l) = Some e))
   \<and> (new_url article \<in> a_url ` set (articles d) \<longrightarrow>
        createArticle w i d article = Inl constraint_failed)
   \<and> (distinct (map a_url (articles d)) \<longrightarrow>
        distinct (map a_url (articles (snd (fetchFeed w d fid)))))
   \<and> (\<forall>a. a \<in> set (articles (snd (fetchFeed w d fid))) \<longrightarrow>
        a \<in> set (articles d) \<or> a_url a \<notin> a_url ` set (articles d))"
proof (intro conjI impI allI)
  show "process_item w feed i item d = Inr (d, 0)
      \<or> (\<exists>e. process_item w feed i item d = Inl e \<and> store_fault w (SelectArticleByUrl l) = Some e)"
    if "link item = Some l \<and> l \<in> a_url ` set (articles d)"
    using that process_item_known_url[of item l d w feed i] by simp
  show "createArticle w i d article = Inl constraint_failed"
    if "new_url article \<in> a_url ` set (articles d)"
    using that by (rule createArticle_unique_url)
  show "distinct (map a_url (articles (snd (fetchFeed w d fid))))"
    if "distinct (map a_url (articles d))"
    using that by (rule fetch_urls_distinct)
  show "a \<in> set (articles d) \<or> a_url a \<notin> a_url ` set (articles d)"
    if "a \<in> set (articles (snd (fetchFeed w d fid)))" for a
    using that by (rule fetch_rows_old_or_new)
qed

theorem fetchFeed_skips_known_urls_witness:
  "process_item feed_world (feed_row ''f1'' ''http://feed/1'' 1) 0
      (entry (Some ''Old'') (Some ''http://x/1'') (Some ''2024-05-01'')) fetch_db
     = Inr (fetch_db, 0)
   \<and> distinct (map a_url (articles (snd (fetchFeed feed_world fetch_db ''f1''))))"
proof -
  let ?item = "entry (Some ''Old'') (Some ''http://x/1'') (Some ''2024-05-01'')"
  have l: "link ?item = Some ''http://x/1'' \<and> ''http://x/1'' \<in> a_url ` set (articles fetch_db)"
    by (simp add: entry_def fetch_db_def empty_db_def article_at_def)
  have u: "distinct (map a_url (articles fetch_db))"
    by (simp add: fetch_db_def empty_db_def article_at_def)
  note t = fetchFeed_skips_known_urls[where item="?item" and l="''http://x/1''" and d=fetch_db
      and w=feed_world and feed="feed_row ''f1'' ''http://feed/1'' 1" and i=0 and fid="''f1''"]
  from t l have "process_item feed_world (feed_row ''f1'' ''http://feed/1'' 1) 0 ?item fetch_db
       = Inr (fetch_db, 0)"
    by (simp add: feed_world_faults)
  moreover from t u have "distinct (map a_url (articles (snd (fetchFeed feed_world fetch_db ''f1''))))"
    by simp
  ultimately show ?thesis by simp
qed





section \<open>Properties of the similarity search\<close>



lemma split_ws_nonempty: "split_ws s \<noteq> []"
  by (induction s rule: split_ws.induct) (auto split: list.splits)

lemma jaccard_sizes:
  "length (remdups (filter (\<lambda>word. word \<in> set (remdups ys)) (remdups xs))) = card (set xs \<inter> set ys)"
  "length (remdups (remdups xs @ remdups ys)) = card (set xs \<union> set ys)"
proof -
  have "set (filter (\<lambda>word. word \<in> set (remdups ys)) (remdups xs)) = set xs \<inter> set ys"
    by (simp add: Int_def conj_commute)
  then show "length (remdups (filter (\<lambda>word. word \<in> set (remdups ys)) (remdups xs)))
      = card (set xs \<inter> set ys)"
    by (simp only: length_remdups_card_conv)
  have "set (remdups xs @ remdups ys) = set xs \<union> set ys" by simp
  then show "length (remdups (remdups xs @ remdups ys)) = card (set xs \<union> set ys)"
    by (simp only: length_remdups_card_conv)
qed

lemma similarity_formula:
  "calculateTextSimilarity q a =
     min 1
       (rat_of_nat (card (set (split_ws (toLowerCase q))
                        \<inter> set (split_ws (toLowerCase
                              (art_title a @ '' '' @ snippet a @ '' '' @ art_content a)))))
          / rat_of_nat (card (set (split_ws (toLowerCase q))
                        \<union> set (split_ws (toLowerCase
                              (art_title a @ '' '' @ snippet a @ '' '' @ art_content a)))))
        + (if sublist q (toLowerCase (art_title a)) then 3 / 10 else 0)
        + (case category a of
             None \<Rightarrow> 0
           | Some c \<Rightarrow> if c \<noteq> [] \<and> sublist q (toLowerCase c) then 1 / 10 else 0))"
  unfolding calculateTextSimilarity_def Let_def jaccard_sizes js_includes_def
  by (simp add: truthy_def or_string_def min.commute split: option.splits)

lemma similarity_nonneg: "0 \<le> calculateTextSimilarity q a"
  unfolding similarity_formula by (simp split: option.splits)

lemma similarity_le_one: "calculateTextSimilarity q a \<le> 1"
  unfolding similarity_formula by simp

lemma generateEmbedding_cases:
  "(\<exists>v vs. AI_run w (Embed (truncateText text 1000)) = Inr (DataResponse (v # vs))
       \<and> generateEmbedding w text = Inr v)
   \<or> ((\<forall>v vs. AI_run w (Embed (truncateText text 1000)) \<noteq> Inr (DataResponse (v # vs)))
       \<and> generateEmbedding w text = Inl (JsError ''Failed to generate embedding''))"
  unfolding generateEmbedding_def Let_def
  by (auto split: sum.splits ai_response.splits list.splits)

lemma search_embedding_fails:
  "generateEmbedding w query = Inl e \<Longrightarrow>
   searchSimilarArticles w d query limit = Inl (JsError ''Failed to perform semantic search'')"
  by (simp add: searchSimilarArticles_def)

lemma search_returns:
  "searchSimilarArticles w d query limit = Inr rs \<longleftrightarrow>
     (\<exists>v. generateEmbedding w query = Inr v) \<and> store_fault w SelectArticles = None
     \<and> rs = slice0
           (sort_key (\<lambda>r. - score r)
              (filter (\<lambda>r. score r > 0)
                 (map (search_result query) (getArticles d (limit * 3)))))
           (Some limit)"
  unfolding searchSimilarArticles_def
  by (auto split: sum.splits option.splits)

lemma search_ignores_embedding:
  assumes "generateEmbedding w query = Inr v"
    and "generateEmbedding (w\<lparr>AI_run := run\<rparr>) query = Inr v'"
  shows "searchSimilarArticles (w\<lparr>AI_run := run\<rparr>) d query limit
       = searchSimilarArticles w d query limit"
  using assms by (simp add: searchSimilarArticles_def)

lemma find_needs_embedding:
  assumes "findSimilarArticles w d article_id limit = Inr rs"
  shows "\<exists>article v. getArticle d article_id = Some article
           \<and> generateEmbedding w (art_title article @ '' '' @ snippet article) = Inr v"
proof -
  from assms obtain article where a: "getArticle d article_id = Some article"
    by (auto simp: findSimilarArticles_def split: option.splits)
  from assms a obtain rs' where
    "searchSimilarArticles w d (art_title article @ '' '' @ snippet article) (limit + 1) = Inr rs'"
    by (auto simp: findSimilarArticles_def Let_def split: option.splits sum.splits)
  then have "\<exists>v. generateEmbedding w (art_title article @ '' '' @ snippet article) = Inr v"
    unfolding search_returns by (elim conjE)
  then show ?thesis using a by simp
qed

lemma find_embedding_fails:
  assumes "getArticle d article_id = Some article"
    and "generateEmbedding w (art_title article @ '' '' @ snippet article) = Inl e"
  shows "findSimilarArticles w d article_id limit = Inl (JsError ''Failed to find similar articles'')"
  using assms search_embedding_fails[OF assms(2), of d "limit + 1"]
  by (simp add: findSimilarArticles_def Let_def split: option.splits)

text \<open>
  Claim C10. \<open>searchSimilarArticles\<close> throws \<open>Failed to perform semantic search\<close>
  whenever \<open>generateEmbedding\<close> fails on the query, and \<open>generateEmbedding\<close> fails
  whenever the AI binding does not answer with a non-empty \<open>data\<close> array. A search that
  returns has had its embedding, yet the results do not depend on it: with another AI
  binding whose embedding also succeeds the search returns the same. So
  \<open>findSimilarArticles\<close> throws \<open>Failed to find similar articles\<close> when the embedding
  of its query (title and snippet of the article) fails, and returns only when it
  succeeded.
\<close>

theorem search_requires_embedding:
  "(\<forall>e. generateEmbedding w query = Inl e \<longrightarrow>
        searchSimilarArticles w d query limit = Inl (JsError ''Failed to perform semantic search''))
   \<and> ((\<forall>v vs. AI_run w (Embed (truncateText query 1000)) \<noteq> Inr (DataResponse (v # vs))) \<longrightarrow>
        generateEmbedding w query = Inl (JsError ''Failed to generate embedding''))
   \<and> (\<forall>rs. searchSimilarArticles w d query limit = Inr rs \<longrightarrow>
        (\<exists>v. generateEmbedding w query = Inr v))
   \<and> (\<forall>run v v'. generateEmbedding w query = Inr v
          \<and> generateEmbedding (w\<lparr>AI_run := run\<rparr>) query = Inr v' \<longrightarrow>
        searchSimilarArticles (w\<lparr>AI_run := run\<rparr>) d query limit
          = searchSimilarArticles w d query limit)
   \<and> (\<forall>article e. getArticle d article_id = Some article
          \<and> generateEmbedding w (art_title article @ '' '' @ snippet article) = Inl e \<longrightarrow>
        findSimilarArticles w d article_id limit
          = Inl (JsError ''Failed to find similar articles''))
   \<and> (\<forall>rs. findSimilarArticles w d article_id limit = Inr rs \<longrightarrow>
        (\<exists>article v. getArticle d article_id = Some article
           \<and> generateEmbedding w (art_title article @ '' '' @ snippet article) = Inr v))"
proof (intro conjI allI impI)
  show "searchSimilarArticles w d query limit = Inl (JsError ''Failed to perform semantic search'')"
    if "generateEmbedding w query = Inl e" for e
    using that by (rule search_embedding_fails)
  show "generateEmbedding w query = Inl (JsError ''Failed to generate embedding'')"
    if "\<forall>v vs. AI_run w (Embed (truncateText query 1000)) \<noteq> Inr (DataResponse (v # vs))"
    using that generateEmbedding_cases[of w query] by simp
  show "\<exists>v. generateEmbedding w query = Inr v"
    if "searchSimilarArticles w d query limit = Inr rs" for rs
    using that unfolding search_returns by (elim conjE)
  show "searchSimilarArticles (w\<lparr>AI_run := run\<rparr>) d query limit
          = searchSimilarArticles w d query limit"
    if "generateEmbedding w query = Inr v
          \<and> generateEmbedding (w\<lparr>AI_run := run\<rparr>) query = Inr v'" for run v v'
    using that search_ignores_embedding[of w query v run v' d limit] by simp
  show "findSimilarArticles w d article_id limit = Inl (JsError ''Failed to find similar articles'')"
    if "getArticle d article_id = Some article
          \<and> generateEmbedding w (art_title article @ '' '' @ snippet article) = Inl e" for article e
    using that find_embedding_fails[of d article_id article w e limit] by simp
  show "\<exists>article v. getArticle d article_id = Some article
           \<and> generateEmbedding w (art_title article @ '' '' @ snippet article) = Inr v"
    if "findSimilarArticles w d article_id limit = Inr rs" for rs
    using that by (rule find_needs_embedding)
qed

theorem search_requires_embedding_witness:
  "searchSimilarArticles (quiet_world\<lparr>AI_run := (\<lambda>r. Inl NonError)\<rparr>) search_db ''trade'' 10
     = Inl (JsError ''Failed to perform semantic search'')
   \<and> findSimilarArticles (quiet_world\<lparr>AI_run := (\<lambda>r. Inl NonError)\<rparr>) search_db ''t1'' 5
     = Inl (JsError ''Failed to find similar articles'')"
proof -
  let ?w = "quiet_world\<lparr>AI_run := (\<lambda>r. Inl NonError)\<rparr>"
  have g: "generateEmbedding ?w q = Inl (JsError ''Failed to generate embedding'')" for q
    by (simp add: generateEmbedding_def)
  have a: "getArticle search_db ''t1'' = Some (mapArticleRow trade_article)"
    by (simp add: getArticle_def search_db_def empty_db_def trade_article_def article_at_def)
  note t = search_requires_embedding[where w="?w" and d=search_db and query="''trade''"
      and limit=10 and article_id="''t1''"]
  note t5 = search_requires_embedding[where w="?w" and d=search_db and query="''trade''"
      and limit=5 and article_id="''t1''"]
  have one: "searchSimilarArticles ?w search_db ''trade'' 10
      = Inl (JsError ''Failed to perform semantic search'')"
    using conjunct1[OF t] g by blast
  have "\<forall>article e. getArticle search_db ''t1'' = Some article
          \<and> generateEmbedding ?w (art_title article @ '' '' @ snippet article) = Inl e \<longrightarrow>
        findSimilarArticles ?w search_db ''t1'' 5
          = Inl (JsError ''Failed to find similar articles'')"
    by (rule conjunct1[OF conjunct2[OF conjunct2[OF conjunct2[OF conjunct2[OF t5]]]]])
  then have two: "findSimilarArticles ?w search_db ''t1'' 5
          = Inl (JsError ''Failed to find similar articles'')"
    using a g by blast
  from one two show ?thesis by simp
qed
















end
